theory Spec2Isabelle
  imports Main
begin

section \<open>Build tasks of \<^verbatim>\<open>tasks/build.py\<close>\<close>

text \<open>
  The module is a set of Invoke tasks. Each task is a straight sequence of subprocess
  calls (\<^verbatim>\<open>ctx.run\<close>), file checks and a few file operations. The embedding below keeps
  that shape: a task is a function from the state of the world to a result and the new
  state of the world, a raised exception is the result \<open>Inl\<close>, and every operation that
  acts on the world outside the Python process (a subprocess, a write, a download, a
  removal, a directory creation, a move) is appended to a trace.
\<close>

subsection \<open>Python values\<close>

text \<open>
  The exceptions that the module's own statements can raise. \<open>UnexpectedExit c\<close> is what
  \<^verbatim>\<open>ctx.run\<close> raises when the subprocess exits with the code \<open>c \<noteq> 0\<close>; Invoke turns
  it into the exit code of the whole run.
\<close>

datatype py_error =
    UnexpectedExit int
  | FileExistsError
  | JSONDecodeError
  | AttributeError
  | TypeError
  | ConnectionError

text \<open>
  A Python \<^verbatim>\<open>str\<close> object: the operator \<^verbatim>\<open>is\<close> compares the identity of two objects,
  \<^verbatim>\<open>==\<close> compares their characters.
\<close>

datatype pystr = PyStr (ident: nat) (chars: string)

definition is_not :: "pystr \<Rightarrow> pystr \<Rightarrow> bool" where
  "is_not a b = (ident a \<noteq> ident b)"

text \<open>
  What \<^verbatim>\<open>json.load\<close> returns. A \<^verbatim>\<open>dict\<close> is the list of its items, the first binding of
  a key being the one that counts; \<open>JFloat m e\<close> stands for the float \<open>m * 2 ^ e\<close>.
\<close>

datatype json =
    JNull
  | JBool bool
  | JInt int
  | JFloat int int
  | JString string
  | JArray "json list"
  | JObject "(string \<times> json) list"

fun is_substring :: "string \<Rightarrow> string \<Rightarrow> bool" where
  "is_substring needle [] = (needle = [])"
| "is_substring needle (c # cs) =
     (take (length needle) (c # cs) = needle \<or> is_substring needle cs)"

text \<open>\<^verbatim>\<open>value.get(key, default)\<close>: only a \<^verbatim>\<open>dict\<close> has the method.\<close>

fun py_get :: "json \<Rightarrow> string \<Rightarrow> json \<Rightarrow> py_error + json" where
  "py_get (JObject items) key dflt =
     (case map_of items key of None \<Rightarrow> Inr dflt | Some v \<Rightarrow> Inr v)"
| "py_get _ key dflt = Inl AttributeError"

text \<open>
  \<^verbatim>\<open>key in value\<close> for a \<^verbatim>\<open>str\<close> key: a key of a dict, an element of a list, a substring of
  a string; \<^verbatim>\<open>None\<close>, booleans and numbers are not iterable.
\<close>

fun py_in :: "string \<Rightarrow> json \<Rightarrow> py_error + bool" where
  "py_in key (JObject items) = Inr (key \<in> set (map fst items))"
| "py_in key (JArray xs) = Inr (JString key \<in> set xs)"
| "py_in key (JString s) = Inr (is_substring key s)"
| "py_in key _ = Inl TypeError"

subsection \<open>Text files\<close>

definition LF :: char where
  "LF = CHR 0x0A"

definition CR :: char where
  "CR = CHR 0x0D"

text \<open>
  \<^verbatim>\<open>f.readline()\<close> on a file opened in text mode: the text up to and including the first
  line end, where \<^verbatim>\<open>\r\<close> and \<^verbatim>\<open>\r\n\<close> are read as \<^verbatim>\<open>\n\<close>.
\<close>

fun readline :: "string \<Rightarrow> string" where
  "readline [] = []"
| "readline (c # cs) = (if c = LF \<or> c = CR then [LF] else c # readline cs)"

text \<open>
  A character of a text stands for a code point below 256. These are the ones for which
  \<^verbatim>\<open>str.isspace\<close> holds, the ones that \<^verbatim>\<open>str.strip\<close> removes: the ASCII white space,
  the separators U+001C to U+001F, the next-line control U+0085 and the no-break space
  U+00A0.
\<close>

definition isspace :: "char \<Rightarrow> bool" where
  "isspace c = (c \<in> set [CHR 0x09, CHR 0x0A, CHR 0x0B, CHR 0x0C, CHR 0x0D,
                          CHR 0x1C, CHR 0x1D, CHR 0x1E, CHR 0x1F, CHR 0x20,
                          CHR 0x85, CHR 0xA0])"

definition strip :: "string \<Rightarrow> string" where
  "strip s = rev (dropWhile isspace (rev (dropWhile isspace s)))"

text \<open>\<^verbatim>\<open>os.path.join(a, b)\<close> on POSIX.\<close>

definition os_path_join :: "string \<Rightarrow> string \<Rightarrow> string" where
  "os_path_join a b =
     (if b \<noteq> [] \<and> hd b = CHR ''/'' then b
      else if a = [] \<or> last a = CHR ''/'' then a @ b
      else a @ ''/'' @ b)"

subsection \<open>Constants of the module\<close>

text \<open>
  \<^verbatim>\<open>CLONE_DIR_PATH\<close>, \<^verbatim>\<open>SITE_BUILD_DIR\<close>, \<^verbatim>\<open>WORKING_DIR\<close> and \<^verbatim>\<open>SITE_BUILD_DIR_PATH\<close> are
  imported from \<^verbatim>\<open>tasks/common.py\<close>, and \<^verbatim>\<open>NVM_SH_PATH\<close> is computed from the environment
  variable \<^verbatim>\<open>NVM_DIR\<close> when the module is loaded; they are parameters here.
  \<^verbatim>\<open>SITE_BUILD_DIR\<close> is kept as an object because the module compares it by identity.
\<close>

record config =
  NVM_SH_PATH :: string
  CLONE_DIR_PATH :: string
  SITE_BUILD_DIR :: pystr
  WORKING_DIR :: string
  SITE_BUILD_DIR_PATH :: string

definition RVM_PATH :: string where
  "RVM_PATH = ''/usr/local/rvm/scripts/rvm''"

definition PACKAGE_JSON_PATH :: "config \<Rightarrow> string" where
  "PACKAGE_JSON_PATH cfg = os_path_join (CLONE_DIR_PATH cfg) ''package.json''"

definition NVMRC_PATH :: "config \<Rightarrow> string" where
  "NVMRC_PATH cfg = os_path_join (CLONE_DIR_PATH cfg) ''.nvmrc''"

definition RUBY_VERSION_PATH :: "config \<Rightarrow> string" where
  "RUBY_VERSION_PATH cfg = os_path_join (CLONE_DIR_PATH cfg) ''.ruby-version''"

definition GEMFILE_PATH :: "config \<Rightarrow> string" where
  "GEMFILE_PATH cfg = os_path_join (CLONE_DIR_PATH cfg) ''Gemfile''"

definition JEKYLL_CONF_YML_PATH :: "config \<Rightarrow> string" where
  "JEKYLL_CONF_YML_PATH cfg = os_path_join (CLONE_DIR_PATH cfg) ''_config.yml''"

subsection \<open>The world a task runs in\<close>

text \<open>
  A context manager of the Invoke context: \<^verbatim>\<open>ctx.prefix(command)\<close> or \<^verbatim>\<open>ctx.cd(path)\<close>.
\<close>

datatype ctx_manager = Prefix string | Cd string

text \<open>
  One call of \<^verbatim>\<open>ctx.run\<close>: the context managers entered at that moment (outermost
  first), the command and the \<^verbatim>\<open>env\<close> argument, a dict written as the list of its items.
  A call that passes no \<^verbatim>\<open>env\<close> gets Invoke's default, the empty dict.
\<close>

record invocation =
  entered :: "ctx_manager list"
  command :: string
  env :: "(string \<times> string) list"

datatype event =
    Ran invocation int
  | Appended string string
  | Fetched string
  | Wrote string string
  | MadeDirs string
  | Moved string string
  | Removed string

record response =
  status_code :: nat
  content :: string

text \<open>
  The state of the world, as far as the tasks look at it:
  \<^item> \<open>package_json_file\<close>: \<open>None\<close> when \<^verbatim>\<open>PACKAGE_JSON_PATH.is_file()\<close> is false, otherwise
    what \<^verbatim>\<open>json.load\<close> does on the file: it raises, or it returns a value;
  \<^item> \<open>nvmrc_is_file\<close>, \<open>gemfile_is_file\<close>: \<^verbatim>\<open>NVMRC_PATH.is_file()\<close>,
    \<^verbatim>\<open>GEMFILE_PATH.is_file()\<close>;
  \<^item> \<open>ruby_version_file\<close>: the text of \<^verbatim>\<open>.ruby-version\<close> when it is a file;
  \<^item> \<open>jekyll_conf_yml\<close>, \<open>hugo_deb_file\<close>: the contents of \<^verbatim>\<open>_config.yml\<close> and of
    the downloaded package, \<open>None\<close> when the file does not exist;
  \<^item> \<open>site_build_dir_exists\<close>: whether \<^verbatim>\<open>SITE_BUILD_DIR_PATH\<close> exists;
  \<^item> \<open>clone_listing\<close>: the list of \<^verbatim>\<open>str\<close> objects that \<^verbatim>\<open>os.listdir(CLONE_DIR_PATH)\<close>
    returns when the static build calls it;
  \<^item> \<open>requests_get\<close>: what \<^verbatim>\<open>requests.get\<close> does for a URL;
  \<^item> \<open>sh\<close>: the exit code of a subprocess, which may depend on everything that
    happened before it;
  \<^item> \<open>os_environ\<close>: the environment of the Python process, \<^verbatim>\<open>os.environ\<close>, as the list
    of its items;
  \<^item> \<open>active\<close>: the context managers of \<^verbatim>\<open>ctx\<close> that are entered;
  \<^item> \<open>trace\<close>: what has been done so far.
  A subprocess is opaque: only its exit code is modelled.
\<close>

record world =
  package_json_file :: "(py_error + json) option"
  nvmrc_is_file :: bool
  ruby_version_file :: "string option"
  gemfile_is_file :: bool
  jekyll_conf_yml :: "string option"
  hugo_deb_file :: "string option"
  site_build_dir_exists :: bool
  clone_listing :: "pystr list"
  requests_get :: "string \<Rightarrow> py_error + response"
  sh :: "event list \<Rightarrow> invocation \<Rightarrow> int"
  os_environ :: "(string \<times> string) list"
  active :: "ctx_manager list"
  trace :: "event list"

type_synonym 'a task = "world \<Rightarrow> (py_error + 'a) \<times> world"

definition ret :: "'a \<Rightarrow> 'a task" where
  "ret x w = (Inr x, w)"

definition raise :: "py_error \<Rightarrow> 'a task" where
  "raise e w = (Inl e, w)"

text \<open>Sequencing: an exception of the first part skips the rest.\<close>

definition and_then :: "'a task \<Rightarrow> ('a \<Rightarrow> 'b task) \<Rightarrow> 'b task" where
  "and_then p f w = (case p w of (Inl e, w') \<Rightarrow> (Inl e, w') | (Inr x, w') \<Rightarrow> f x w')"

definition seq :: "unit task \<Rightarrow> 'b task \<Rightarrow> 'b task" where
  "seq p q = and_then p (\<lambda>_. q)"

definition emit :: "event \<Rightarrow> world \<Rightarrow> world" where
  "emit e w = w\<lparr>trace := trace w @ [e]\<rparr>"

text \<open>
  \<^verbatim>\<open>ctx.run(command, env=env)\<close>. No call in the module passes \<^verbatim>\<open>warn=True\<close>, so a
  non-zero exit code raises \<^verbatim>\<open>UnexpectedExit\<close>.
\<close>

definition ctx_run :: "string \<Rightarrow> (string \<times> string) list \<Rightarrow> unit task" where
  "ctx_run cmd e w =
     (let invoked = \<lparr>entered = active w, command = cmd, env = e\<rparr>;
          code = sh w (trace w) invoked;
          w' = emit (Ran invoked code) w
      in if code = 0 then (Inr (), w') else (Inl (UnexpectedExit code), w'))"



text \<open>
  \<^verbatim>\<open>with cm: body\<close> for a context manager of \<^verbatim>\<open>ctx\<close>: it is entered, the body runs, and it
  is left again whether the body raised or not. An \<^verbatim>\<open>ExitStack\<close> enters a list of them in
  order and leaves them in reverse order.
\<close>

definition with_context :: "ctx_manager \<Rightarrow> 'a task \<Rightarrow> 'a task" where
  "with_context c body w =
     (case body (w\<lparr>active := active w @ [c]\<rparr>) of
        (r, w') \<Rightarrow> (r, w'\<lparr>active := butlast (active w')\<rparr>))"

definition with_contexts :: "ctx_manager list \<Rightarrow> 'a task \<Rightarrow> 'a task" where
  "with_contexts cs body = foldr with_context cs body"

text \<open>
  Looking at the world: \<open>reading\<close> hands a value read from the world to the rest of the
  task, \<open>observe\<close> is a read that may raise, \<open>if_then\<close> is an \<^verbatim>\<open>if\<close> without \<^verbatim>\<open>else\<close> on
  a condition read from the world.
\<close>

definition reading :: "(world \<Rightarrow> 'x) \<Rightarrow> ('x \<Rightarrow> 'a task) \<Rightarrow> 'a task" where
  "reading f k w = k (f w) w"

definition observe :: "(world \<Rightarrow> py_error + 'a) \<Rightarrow> 'a task" where
  "observe f w = (f w, w)"

definition if_then :: "(world \<Rightarrow> bool) \<Rightarrow> unit task \<Rightarrow> unit task" where
  "if_then c body w = (if c w then body w else ret () w)"

text \<open>\<^verbatim>\<open>path.is_file()\<close> for the marker files of the clone directory.\<close>

definition PACKAGE_JSON_PATH_is_file :: "world \<Rightarrow> bool" where
  "PACKAGE_JSON_PATH_is_file w = (package_json_file w \<noteq> None)"

definition NVMRC_PATH_is_file :: "world \<Rightarrow> bool" where
  "NVMRC_PATH_is_file w = nvmrc_is_file w"

definition RUBY_VERSION_PATH_is_file :: "world \<Rightarrow> bool" where
  "RUBY_VERSION_PATH_is_file w = (ruby_version_file w \<noteq> None)"

definition GEMFILE_PATH_is_file :: "world \<Rightarrow> bool" where
  "GEMFILE_PATH_is_file w = gemfile_is_file w"

subsection \<open>The tasks\<close>

definition has_federalist_script :: "world \<Rightarrow> py_error + bool" where
  "has_federalist_script w =
     (if PACKAGE_JSON_PATH_is_file w
      then (case the (package_json_file w) of
              Inl e \<Rightarrow> Inl e
            | Inr package_json \<Rightarrow>
                (case py_get package_json ''scripts'' (JObject []) of
                   Inl e \<Rightarrow> Inl e
                 | Inr scripts \<Rightarrow> py_in ''federalist'' scripts))
      else Inr False)"

definition setup_node :: "config \<Rightarrow> unit task" where
  "setup_node cfg =
     with_context (Cd (CLONE_DIR_PATH cfg))
       (with_context (Prefix (''source '' @ NVM_SH_PATH cfg))
          (seq (if_then NVMRC_PATH_is_file (ctx_run ''nvm install'' []))
          (seq (ctx_run ''node --version'' [])
          (seq (ctx_run ''npm --version'' [])
               (if_then PACKAGE_JSON_PATH_is_file
                  (with_context (Prefix ''nvm use'')
                     (ctx_run ''npm install --production'' [])))))))"

text \<open>
  \<open>node_context\<close> returns the context managers that its \<^verbatim>\<open>ExitStack\<close> holds, in the
  order in which they are entered; the \<^verbatim>\<open>with\<close> statement of the caller is
  \<open>with_contexts\<close>.
\<close>

definition node_context :: "config \<Rightarrow> ctx_manager list \<Rightarrow> ctx_manager list task" where
  "node_context cfg more_contexts =
     reading NVMRC_PATH_is_file
       (\<lambda>pinned.
          let contexts = [Prefix (''source '' @ NVM_SH_PATH cfg)];
              contexts = (if pinned then contexts @ [Prefix ''nvm use''] else contexts)
          in ret (contexts @ more_contexts))"

definition build_env ::
  "string \<Rightarrow> string \<Rightarrow> string \<Rightarrow> string \<Rightarrow> string \<Rightarrow> (string \<times> string) list" where
  "build_env branch owner repository site_prefix base_url =
     [(''BRANCH'', branch),
      (''OWNER'', owner),
      (''REPOSITORY'', repository),
      (''SITE_PREFIX'', site_prefix),
      (''BASEURL'', base_url)]"

definition run_federalist_script :: "config \<Rightarrow> unit task" where
  "run_federalist_script cfg =
     and_then (reading PACKAGE_JSON_PATH_is_file
                 (\<lambda>is_file. if is_file then observe has_federalist_script else ret False))
       (\<lambda>run_it.
          if run_it
          then and_then (node_context cfg [Cd (CLONE_DIR_PATH cfg)])
                 (\<lambda>stack. with_contexts stack (ctx_run ''npm run federalist'' []))
          else ret ())"

definition setup_ruby :: "unit task" where
  "setup_ruby =
     with_context (Prefix (''source '' @ RVM_PATH))
       (seq (if_then RUBY_VERSION_PATH_is_file
               (reading (\<lambda>w. strip (readline (the (ruby_version_file w))))
                  (\<lambda>ruby_version.
                     if ruby_version \<noteq> []
                     then ctx_run ''rvm install {ruby_version}'' []
                     else ret ())))
            (ctx_run ''ruby -v'' []))"

text \<open>\<^verbatim>\<open>open(path, 'a')\<close> and \<^verbatim>\<open>f.writelines(lines)\<close> on \<^verbatim>\<open>_config.yml\<close>.\<close>

definition append_jekyll_conf :: "config \<Rightarrow> string list \<Rightarrow> unit task" where
  "append_jekyll_conf cfg lines w =
     (let before = (case jekyll_conf_yml w of None \<Rightarrow> [] | Some text \<Rightarrow> text)
      in (Inr (), emit (Appended (JEKYLL_CONF_YML_PATH cfg) (concat lines))
                    (w\<lparr>jekyll_conf_yml := Some (before @ concat lines)\<rparr>)))"

definition build_jekyll ::
  "config \<Rightarrow> string \<Rightarrow> string \<Rightarrow> string \<Rightarrow> string \<Rightarrow> string \<Rightarrow> string \<Rightarrow> unit task" where
  "build_jekyll cfg branch owner repository site_prefix config base_url =
     seq (append_jekyll_conf cfg
            [[LF] @ ''baseurl: '' @ base_url @ [LF],
             ''branch: '' @ branch @ [LF],
             config])
         (and_then
            (node_context cfg [Prefix (''source '' @ RVM_PATH), Cd (CLONE_DIR_PATH cfg)])
            (\<lambda>stack.
               with_contexts stack
                 (and_then
                    (reading GEMFILE_PATH_is_file
                       (\<lambda>is_file.
                          if is_file
                          then seq (ctx_run ''gem install bundler'' [])
                              (seq (ctx_run ''bundle install'' [])
                                   (ret (''bundle exec '' @ ''jekyll'')))
                          else seq (ctx_run ''gem install jekyll'' [])
                                   (ret ''jekyll'')))
                    (\<lambda>jekyll_cmd.
                       seq (ctx_run (jekyll_cmd @ '' -v'') [])
                           (ctx_run (jekyll_cmd @ '' build --destination ''
                                       @ chars (SITE_BUILD_DIR cfg))
                              (build_env branch owner repository site_prefix base_url))))))"

text \<open>\<^verbatim>\<open>response.iter_content(chunk_size=n)\<close> on a response that is already read.\<close>

function iter_content :: "nat \<Rightarrow> string \<Rightarrow> string list" where
  "iter_content n bs =
     (if n = 0 \<or> bs = [] then [] else take n bs # iter_content n (drop n bs))"
  by pat_completeness auto
termination
  by (relation "measure (\<lambda>(n, bs). length bs)") auto

declare iter_content.simps [simp del]

definition http_get :: "string \<Rightarrow> response task" where
  "http_get url w = (requests_get w url, emit (Fetched url) w)"

text \<open>\<^verbatim>\<open>open(path, 'wb')\<close> on the package file, then one \<^verbatim>\<open>fd.write\<close> for each chunk.\<close>

definition write_hugo_deb :: "string \<Rightarrow> string list \<Rightarrow> unit task" where
  "write_hugo_deb path chunks w =
     (Inr (), emit (Wrote path (fold (\<lambda>chunk written. written @ chunk) chunks []))
                (w\<lparr>hugo_deb_file :=
                     Some (fold (\<lambda>chunk written. written @ chunk) chunks [])\<rparr>))"

text \<open>The local variables \<^verbatim>\<open>dl_url\<close> and \<^verbatim>\<open>hugo_deb\<close> of \<^verbatim>\<open>install_hugo\<close>.\<close>

definition dl_url :: "string \<Rightarrow> string" where
  "dl_url version = ''https://github.com/gohugoio/hugo/releases/download/''
                    @ ''v'' @ version @ ''/hugo_'' @ version @ ''_Linux-64bit.deb''"

definition hugo_deb :: "config \<Rightarrow> string" where
  "hugo_deb cfg = os_path_join (WORKING_DIR cfg) ''hugo.deb''"

definition install_hugo :: "config \<Rightarrow> string \<Rightarrow> unit task" where
  "install_hugo cfg version =
     and_then (http_get (dl_url version))
       (\<lambda>response.
          seq (write_hugo_deb (hugo_deb cfg) (iter_content 128 (content response)))
              (ctx_run (''dpkg -i '' @ hugo_deb cfg) []))"

definition build_hugo ::
  "config \<Rightarrow> string \<Rightarrow> string \<Rightarrow> string \<Rightarrow> string \<Rightarrow> string \<Rightarrow> string \<Rightarrow> unit task" where
  "build_hugo cfg branch owner repository site_prefix base_url hugo_version =
     seq (install_hugo cfg hugo_version)
    (seq (ctx_run ''hugo version'' [])
         (and_then (node_context cfg [Cd (CLONE_DIR_PATH cfg)])
            (\<lambda>stack.
               with_contexts stack
                 (let hugo_args = ''--source . --destination '' @ chars (SITE_BUILD_DIR cfg);
                      hugo_args = (if base_url \<noteq> []
                                   then hugo_args @ '' --baseUrl '' @ base_url
                                   else hugo_args)
                  in ctx_run (''hugo '' @ hugo_args)
                       (build_env branch owner repository site_prefix base_url)))))"

text \<open>
  \<^verbatim>\<open>os.makedirs(path)\<close>, which the module calls on \<^verbatim>\<open>SITE_BUILD_DIR_PATH\<close> only: without
  \<^verbatim>\<open>exist_ok\<close> it raises when the path exists.
\<close>

definition os_makedirs :: "string \<Rightarrow> unit task" where
  "os_makedirs path w =
     (if site_build_dir_exists w then raise FileExistsError w
      else (Inr (), emit (MadeDirs path) (w\<lparr>site_build_dir_exists := True\<rparr>)))"

text \<open>
  \<^verbatim>\<open>shutil.move(src, dst)\<close> onto a directory \<open>dst\<close>, which the output directory is once
  \<^verbatim>\<open>os.makedirs\<close> has made it. When \<open>src\<close> is that same directory, \<^verbatim>\<open>shutil.move\<close> renames
  it onto itself and returns: nothing is moved. Otherwise \<open>src\<close> is moved into \<open>dst\<close>.
  Two paths are the same file when they are equal; links are not modelled.
\<close>

definition shutil_move :: "string \<Rightarrow> string \<Rightarrow> unit task" where
  "shutil_move src dst w =
     (if src = dst then (Inr (), w) else (Inr (), emit (Moved src dst) w))"

fun move_files :: "config \<Rightarrow> pystr list \<Rightarrow> unit task" where
  "move_files cfg [] = ret ()"
| "move_files cfg (file # files) =
     seq (if is_not file (SITE_BUILD_DIR cfg)
          then shutil_move (os_path_join (CLONE_DIR_PATH cfg) (chars file))
                 (SITE_BUILD_DIR_PATH cfg)
          else ret ())
         (move_files cfg files)"

definition build_static :: "config \<Rightarrow> unit task" where
  "build_static cfg =
     seq (os_makedirs (SITE_BUILD_DIR_PATH cfg))
         (reading clone_listing (\<lambda>files. move_files cfg files))"

text \<open>
  Modelled from the spec: the task \<^verbatim>\<open>clean\<close> of \<^verbatim>\<open>tasks/common.py\<close>, which is not
  part of the sources at hand. The specification says that the static build deletes the
  clone's version-control metadata directory before it creates the output directory.
\<close>

definition clean :: "string \<Rightarrow> unit task" where
  "clean which w = (Inr (), emit (Removed which) w)"

text \<open>
  The tasks as Invoke runs them from the command line: the tasks named by \<^verbatim>\<open>pre=[...]\<close>
  run first, each after its own \<^verbatim>\<open>pre\<close> tasks, and then the body.
\<close>

datatype task_call =
    Setup_node
  | Run_federalist_script
  | Setup_ruby
  | Build_jekyll string string string string string string
  | Install_hugo string
  | Build_hugo string string string string string string
  | Build_static

fun execute :: "config \<Rightarrow> task_call \<Rightarrow> unit task" where
  "execute cfg Setup_node = setup_node cfg"
| "execute cfg Run_federalist_script =
     seq (setup_node cfg) (run_federalist_script cfg)"
| "execute cfg Setup_ruby = setup_ruby"
| "execute cfg (Build_jekyll branch owner repository site_prefix config base_url) =
     seq (setup_node cfg)
    (seq (run_federalist_script cfg)
    (seq setup_ruby
         (build_jekyll cfg branch owner repository site_prefix config base_url)))"
| "execute cfg (Install_hugo version) = install_hugo cfg version"
| "execute cfg (Build_hugo branch owner repository site_prefix base_url hugo_version) =
     seq (setup_node cfg)
    (seq (run_federalist_script cfg)
         (build_hugo cfg branch owner repository site_prefix base_url hugo_version))"
| "execute cfg Build_static =
     seq (setup_node cfg)
    (seq (run_federalist_script cfg)
    (seq (clean (os_path_join (CLONE_DIR_PATH cfg) ''.git''))
         (build_static cfg)))"

subsection \<open>Orderly traces\<close>

text \<open>
  A subprocess has failed when its exit code is not zero. A trace is calm when no
  subprocess in it has failed; a task has stopped at a failure when the last thing it did
  is a failed subprocess, everything before was calm, and its result is the
  \<^verbatim>\<open>UnexpectedExit\<close> with the exit code of that subprocess. A task is disciplined when,
  started on a calm trace, it ends calm or stopped, and calm when it returns normally.
\<close>

definition failed :: "event \<Rightarrow> bool" where
  "failed e = (case e of Ran invoked code \<Rightarrow> code \<noteq> 0 | _ \<Rightarrow> False)"

definition calm :: "event list \<Rightarrow> bool" where
  "calm t = (\<forall>e \<in> set t. \<not> failed e)"

definition stopped :: "(py_error + 'a) \<Rightarrow> event list \<Rightarrow> bool" where
  "stopped r t =
     (\<exists>before invoked code. t = before @ [Ran invoked code] \<and> calm before \<and> code \<noteq> 0
        \<and> r = Inl (UnexpectedExit code))"

definition disciplined :: "'a task \<Rightarrow> bool" where
  "disciplined p =
     (\<forall>w. calm (trace w) \<longrightarrow>
        (case p w of (r, w') \<Rightarrow>
           (calm (trace w') \<or> stopped r (trace w'))
           \<and> ((\<exists>x. r = Inr x) \<longrightarrow> calm (trace w'))))"

text \<open>A task keeps the generator configuration file as it is.\<close>

definition keeps_conf :: "'a task \<Rightarrow> bool" where
  "keeps_conf p = (\<forall>w. jekyll_conf_yml (snd (p w)) = jekyll_conf_yml w)"

subsection \<open>Sample configurations and worlds\<close>

text \<open>
  The paths of a build container, and a world with an empty clone directory in which
  every subprocess succeeds and every download returns an empty page.
\<close>

definition sample_config :: config where
  "sample_config =
     \<lparr>NVM_SH_PATH = ''/usr/local/nvm/nvm.sh'',
      CLONE_DIR_PATH = ''/work/site_repo'',
      SITE_BUILD_DIR = PyStr 0 ''_site'',
      WORKING_DIR = ''/work'',
      SITE_BUILD_DIR_PATH = ''/work/site_repo/_site''\<rparr>"

definition bare_world :: world where
  "bare_world =
     \<lparr>package_json_file = None,
      nvmrc_is_file = False,
      ruby_version_file = None,
      gemfile_is_file = False,
      jekyll_conf_yml = None,
      hugo_deb_file = None,
      site_build_dir_exists = False,
      clone_listing = [],
      requests_get = (\<lambda>url. Inr \<lparr>status_code = 200, content = []\<rparr>),
      sh = (\<lambda>history invoked. 0),
      os_environ = [(''NVM_DIR'', ''/usr/local/nvm''), (''PATH'', ''/usr/local/bin:/usr/bin:/bin'')],
      active = [],
      trace = []\<rparr>"

text \<open>
  A clone directory with two files and a directory named like the output directory; the
  names are the new objects that \<^verbatim>\<open>os.listdir\<close> makes.
\<close>

definition world_with_site_entry :: world where
  "world_with_site_entry =
     bare_world\<lparr>clone_listing := [PyStr 1 ''a.txt'', PyStr 2 ''b'', PyStr 3 ''_site'']\<rparr>"

text \<open>The same clone directory when the output directory exists already.\<close>

definition world_with_output_dir :: world where
  "world_with_output_dir = world_with_site_entry\<lparr>site_build_dir_exists := True\<rparr>"

text \<open>A clone with a \<^verbatim>\<open>.ruby-version\<close> file that pins 2.6.3.\<close>

definition world_with_ruby_pin :: world where
  "world_with_ruby_pin = bare_world\<lparr>ruby_version_file := Some (''2.6.3'' @ [LF])\<rparr>"

text \<open>Manifests: one that \<^verbatim>\<open>json.load\<close> rejects, one without scripts, one with the script.\<close>

definition world_with_broken_manifest :: world where
  "world_with_broken_manifest = bare_world\<lparr>package_json_file := Some (Inl JSONDecodeError)\<rparr>"

definition world_with_plain_manifest :: world where
  "world_with_plain_manifest =
     bare_world\<lparr>package_json_file := Some (Inr (JObject [(''name'', JString ''site'')]))\<rparr>"

definition world_with_federalist_manifest :: world where
  "world_with_federalist_manifest =
     bare_world\<lparr>package_json_file :=
       Some (Inr (JObject [(''name'', JString ''site''),
                           (''scripts'', JObject [(''federalist'', JString ''make site'')])]))\<rparr>"

text \<open>A clone with a \<^verbatim>\<open>.nvmrc\<close> file.\<close>

definition world_with_node_pin :: world where
  "world_with_node_pin = bare_world\<lparr>nvmrc_is_file := True\<rparr>"

text \<open>The release server answers 404; the release server cannot be reached.\<close>

definition world_with_missing_release :: world where
  "world_with_missing_release =
     bare_world\<lparr>requests_get := (\<lambda>url. Inr \<lparr>status_code = 404, content = ''Not Found''\<rparr>)\<rparr>"

definition world_offline :: world where
  "world_offline = bare_world\<lparr>requests_get := (\<lambda>url. Inl ConnectionError)\<rparr>"

text \<open>\<^verbatim>\<open>npm --version\<close> exits with the code 3.\<close>

definition world_with_failing_npm :: world where
  "world_with_failing_npm =
     bare_world\<lparr>sh := (\<lambda>history invoked. if command invoked = ''npm --version'' then 3 else 0)\<rparr>"

section \<open>Properties\<close>

subsection \<open>Unfolding the task combinators\<close>

lemmas task_defs = ret_def raise_def and_then_def seq_def reading_def observe_def if_then_def
  with_context_def with_contexts_def ctx_run_def emit_def Let_def

lemmas is_file_defs = PACKAGE_JSON_PATH_is_file_def NVMRC_PATH_is_file_def
  RUBY_VERSION_PATH_is_file_def GEMFILE_PATH_is_file_def

lemmas sample_defs = sample_config_def bare_world_def

subsection \<open>Every task is disciplined\<close>

lemma calm_snoc: "calm (t @ [e]) = (calm t \<and> \<not> failed e)"
  by (auto simp: calm_def)

lemma disciplined_ret: "disciplined (ret x)"
  by (simp add: disciplined_def ret_def)

lemma disciplined_observe: "disciplined (observe f)"
  by (simp add: disciplined_def observe_def)

lemma disciplined_ctx_run: "disciplined (ctx_run cmd e)"
  by (auto simp: disciplined_def ctx_run_def Let_def emit_def calm_snoc failed_def stopped_def)

lemma disciplined_and_then:
  assumes "disciplined p" and "\<And>x. disciplined (f x)"
  shows "disciplined (and_then p f)"
  unfolding disciplined_def
proof (intro allI impI)
  fix w :: world
  assume w: "calm (trace w)"
  obtain r w1 where p: "p w = (r, w1)" by (cases "p w")
  from assms(1) w p have p1: "calm (trace w1) \<or> stopped r (trace w1)"
    and p2: "(\<exists>x. r = Inr x) \<longrightarrow> calm (trace w1)"
    by (auto simp: disciplined_def)
  show "case and_then p f w of (r, w') \<Rightarrow>
           (calm (trace w') \<or> stopped r (trace w'))
           \<and> ((\<exists>x. r = Inr x) \<longrightarrow> calm (trace w'))"
  proof (cases r)
    case (Inl e)
    with p p1 show ?thesis by (auto simp: and_then_def stopped_def)
  next
    case (Inr x)
    with p2 have "calm (trace w1)" by simp
    with assms(2) [of x] have "case f x w1 of (r, w') \<Rightarrow>
           (calm (trace w') \<or> stopped r (trace w'))
           \<and> ((\<exists>x. r = Inr x) \<longrightarrow> calm (trace w'))"
      by (simp add: disciplined_def)
    with p Inr show ?thesis by (simp add: and_then_def)
  qed
qed

lemma disciplined_seq: "disciplined p \<Longrightarrow> disciplined q \<Longrightarrow> disciplined (seq p q)"
  by (simp add: seq_def disciplined_and_then)

lemma disciplined_reading: "(\<And>x. disciplined (k x)) \<Longrightarrow> disciplined (reading f k)"
  by (simp add: disciplined_def reading_def)

lemma disciplined_if_then: "disciplined p \<Longrightarrow> disciplined (if_then c p)"
  by (simp add: disciplined_def if_then_def ret_def)

lemma disciplined_with_context: "disciplined p \<Longrightarrow> disciplined (with_context c p)"
  unfolding disciplined_def with_context_def
  apply (intro allI impI)
  subgoal for w
    apply (drule spec [of _ "w\<lparr>active := active w @ [c]\<rparr>"])
    apply (auto split: prod.splits)
    done
  done

lemma disciplined_with_contexts: "disciplined p \<Longrightarrow> disciplined (with_contexts cs p)"
  by (induction cs) (simp_all add: with_contexts_def disciplined_with_context)

lemma disciplined_node_context: "disciplined (node_context cfg more_contexts)"
  by (simp add: node_context_def Let_def disciplined_reading disciplined_ret)

lemma disciplined_setup_node: "disciplined (setup_node cfg)"
  unfolding setup_node_def
  by (intro disciplined_with_context disciplined_seq disciplined_if_then disciplined_ctx_run)

lemma disciplined_run_federalist_script: "disciplined (run_federalist_script cfg)"
  unfolding run_federalist_script_def
  by (intro disciplined_and_then disciplined_reading)
     (simp_all add: disciplined_observe disciplined_ret disciplined_and_then
        disciplined_node_context disciplined_with_contexts disciplined_ctx_run)

lemma disciplined_setup_ruby: "disciplined setup_ruby"
  unfolding setup_ruby_def
  by (intro disciplined_with_context disciplined_seq disciplined_if_then disciplined_reading)
     (simp_all add: disciplined_ctx_run disciplined_ret)

lemma disciplined_append_jekyll_conf: "disciplined (append_jekyll_conf cfg lines)"
  by (simp add: disciplined_def append_jekyll_conf_def Let_def emit_def calm_snoc failed_def)

lemma disciplined_build_jekyll:
  "disciplined (build_jekyll cfg branch owner repository site_prefix config base_url)"
  unfolding build_jekyll_def
  by (intro disciplined_seq disciplined_and_then disciplined_with_contexts disciplined_reading
        disciplined_append_jekyll_conf disciplined_node_context)
     (simp_all add: disciplined_seq disciplined_ctx_run disciplined_ret)

lemma disciplined_http_get: "disciplined (http_get url)"
  by (simp add: disciplined_def http_get_def emit_def calm_snoc failed_def)

lemma disciplined_write_hugo_deb: "disciplined (write_hugo_deb path chunks)"
  by (simp add: disciplined_def write_hugo_deb_def emit_def calm_snoc failed_def)

lemma disciplined_install_hugo: "disciplined (install_hugo cfg version)"
  unfolding install_hugo_def
  by (intro disciplined_and_then disciplined_seq disciplined_http_get
        disciplined_write_hugo_deb disciplined_ctx_run)

lemma disciplined_build_hugo:
  "disciplined (build_hugo cfg branch owner repository site_prefix base_url hugo_version)"
  unfolding build_hugo_def Let_def
  by (intro disciplined_and_then disciplined_seq disciplined_install_hugo
        disciplined_with_contexts disciplined_node_context disciplined_ctx_run)

lemma disciplined_os_makedirs: "disciplined (os_makedirs path)"
  by (simp add: disciplined_def os_makedirs_def raise_def emit_def calm_snoc failed_def)

lemma disciplined_shutil_move: "disciplined (shutil_move src dst)"
  by (simp add: disciplined_def shutil_move_def emit_def calm_snoc failed_def)

lemma disciplined_move_files: "disciplined (move_files cfg files)"
  by (induction files)
     (simp_all add: disciplined_ret disciplined_seq disciplined_shutil_move)

lemma disciplined_build_static: "disciplined (build_static cfg)"
  unfolding build_static_def
  by (intro disciplined_seq disciplined_reading disciplined_os_makedirs disciplined_move_files)

lemma disciplined_clean: "disciplined (clean which)"
  by (simp add: disciplined_def clean_def emit_def calm_snoc failed_def)

lemma disciplined_execute: "disciplined (execute cfg call)"
  by (cases call)
     (simp_all add: disciplined_seq disciplined_setup_node disciplined_run_federalist_script
        disciplined_setup_ruby disciplined_build_jekyll disciplined_install_hugo
        disciplined_build_hugo disciplined_clean disciplined_build_static)

lemma failed_run_is_last:
  assumes "before @ [Ran invoked' code'] = pre @ Ran invoked code # post"
    and "calm before" and "code \<noteq> 0"
  shows "post = [] \<and> code' = code"
proof (cases post rule: rev_cases)
  case Nil
  with assms(1) show ?thesis by simp
next
  case (snoc ys y)
  with assms(1) have "before = pre @ Ran invoked code # ys" by simp
  with assms(2) have "\<not> failed (Ran invoked code)" by (simp add: calm_def)
  with assms(3) show ?thesis by (simp add: failed_def)
qed

subsection \<open>The configuration file is written once\<close>

lemma keeps_conf_ret: "keeps_conf (ret x)"
  by (simp add: keeps_conf_def ret_def)

lemma keeps_conf_ctx_run: "keeps_conf (ctx_run cmd e)"
  by (simp add: keeps_conf_def ctx_run_def Let_def emit_def)

lemma keeps_conf_and_then:
  "keeps_conf p \<Longrightarrow> (\<And>x. keeps_conf (f x)) \<Longrightarrow> keeps_conf (and_then p f)"
  by (auto simp: keeps_conf_def and_then_def split: prod.splits sum.splits)
     (metis snd_conv)+

lemma keeps_conf_seq: "keeps_conf p \<Longrightarrow> keeps_conf q \<Longrightarrow> keeps_conf (seq p q)"
  by (simp add: seq_def keeps_conf_and_then)

lemma keeps_conf_reading: "(\<And>x. keeps_conf (k x)) \<Longrightarrow> keeps_conf (reading f k)"
  by (simp add: keeps_conf_def reading_def)

lemma keeps_conf_with_context: "keeps_conf p \<Longrightarrow> keeps_conf (with_context c p)"
  unfolding keeps_conf_def with_context_def
  apply (intro allI)
  subgoal for w
    apply (drule spec [of _ "w\<lparr>active := active w @ [c]\<rparr>"])
    apply (auto split: prod.splits)
    done
  done

lemma keeps_conf_with_contexts: "keeps_conf p \<Longrightarrow> keeps_conf (with_contexts cs p)"
  by (induction cs) (simp_all add: with_contexts_def keeps_conf_with_context)

lemma keeps_conf_node_context: "keeps_conf (node_context cfg more_contexts)"
  by (simp add: node_context_def Let_def keeps_conf_reading keeps_conf_ret)

subsection \<open>Files moved and bytes written\<close>

text \<open>
  The static build calls \<^verbatim>\<open>shutil.move\<close> for the listed names whose object is not
  \<^verbatim>\<open>SITE_BUILD_DIR\<close>, and the call moves something unless the path is the output
  directory.
\<close>

lemma move_files_trace:
  "move_files cfg files w =
     (Inr (), w\<lparr>trace := trace w @
        map (\<lambda>file. Moved (os_path_join (CLONE_DIR_PATH cfg) (chars file))
                      (SITE_BUILD_DIR_PATH cfg))
          (filter (\<lambda>file. ident file \<noteq> ident (SITE_BUILD_DIR cfg)
                     \<and> os_path_join (CLONE_DIR_PATH cfg) (chars file)
                          \<noteq> SITE_BUILD_DIR_PATH cfg) files)\<rparr>)"
  by (induction files arbitrary: w)
     (simp_all add: ret_def seq_def and_then_def shutil_move_def emit_def is_not_def)

text \<open>Joining two names to one directory gives two paths.\<close>

lemma os_path_join_inject:
  assumes "CHR ''/'' \<notin> set b" and "CHR ''/'' \<notin> set c"
  shows "(os_path_join a b = os_path_join a c) = (b = c)"
proof -
  from assms(1) have b: "\<not> (b \<noteq> [] \<and> hd b = CHR ''/'')"
    by (cases b) auto
  from assms(2) have c: "\<not> (c \<noteq> [] \<and> hd c = CHR ''/'')"
    by (cases c) auto
  from b c show ?thesis
    by (auto simp: os_path_join_def)
qed

lemma fold_write_chunks:
  "fold (\<lambda>chunk written. written @ chunk) chunks acc = acc @ concat chunks"
  by (induction chunks arbitrary: acc) simp_all

lemma concat_iter_content: "0 < n \<Longrightarrow> concat (iter_content n bs) = bs"
proof (induction n bs rule: iter_content.induct)
  case (1 n bs)
  show ?case
  proof (cases "bs = []")
    case True
    then show ?thesis by (simp add: iter_content.simps [of n "[]"])
  next
    case False
    with "1.prems" have "iter_content n bs = take n bs # iter_content n (drop n bs)"
      by (simp add: iter_content.simps [of n bs])
    moreover from False "1.prems" "1.IH" have "concat (iter_content n (drop n bs)) = drop n bs"
      by simp
    ultimately show ?thesis by simp
  qed
qed

subsection \<open>The static build\<close>

text \<open>
  C1. The output directory is the child of the clone directory that has the name
  \<^verbatim>\<open>SITE_BUILD_DIR\<close>. Then, for every listing of the clone directory, \<open>build_static\<close>
  makes the output directory and moves into it every listed child except the one whose
  name is the name of the output directory, in the order of the listing; the output
  directory is not moved into itself. The guard \<^verbatim>\<open>file is not SITE_BUILD_DIR\<close> compares
  objects and lets the new objects of \<^verbatim>\<open>os.listdir\<close> pass; it is \<^verbatim>\<open>shutil.move\<close> that
  moves nothing when it is called on the output directory itself. The names of a listing
  hold no slash, and an object that is \<^verbatim>\<open>SITE_BUILD_DIR\<close> has its characters.
\<close>

theorem build_static_moves_all_but_output_dir:
  assumes "\<not> site_build_dir_exists w"
    and "SITE_BUILD_DIR_PATH cfg = os_path_join (CLONE_DIR_PATH cfg) (chars (SITE_BUILD_DIR cfg))"
    and "CHR ''/'' \<notin> set (chars (SITE_BUILD_DIR cfg))"
    and "\<forall>file \<in> set (clone_listing w). CHR ''/'' \<notin> set (chars file)"
    and "\<forall>file \<in> set (clone_listing w).
           ident file = ident (SITE_BUILD_DIR cfg) \<longrightarrow> chars file = chars (SITE_BUILD_DIR cfg)"
  shows "fst (build_static cfg w) = Inr ()
       \<and> trace (snd (build_static cfg w)) =
           trace w @ MadeDirs (SITE_BUILD_DIR_PATH cfg)
             # map (\<lambda>file. Moved (os_path_join (CLONE_DIR_PATH cfg) (chars file))
                             (SITE_BUILD_DIR_PATH cfg))
                 (filter (\<lambda>file. chars file \<noteq> chars (SITE_BUILD_DIR cfg)) (clone_listing w))
       \<and> Moved (SITE_BUILD_DIR_PATH cfg) (SITE_BUILD_DIR_PATH cfg)
           \<notin> set (map (\<lambda>file. Moved (os_path_join (CLONE_DIR_PATH cfg) (chars file))
                                  (SITE_BUILD_DIR_PATH cfg))
                      (filter (\<lambda>file. chars file \<noteq> chars (SITE_BUILD_DIR cfg))
                         (clone_listing w)))"
proof -
  have same_path: "(os_path_join (CLONE_DIR_PATH cfg) (chars entry) = SITE_BUILD_DIR_PATH cfg)
                     = (chars entry = chars (SITE_BUILD_DIR cfg))"
    if "entry \<in> set (clone_listing w)" for entry
    using that assms(2,3,4) by (simp add: os_path_join_inject)
  have moved: "filter (\<lambda>file. ident file \<noteq> ident (SITE_BUILD_DIR cfg)
                          \<and> os_path_join (CLONE_DIR_PATH cfg) (chars file)
                               \<noteq> SITE_BUILD_DIR_PATH cfg) (clone_listing w)
               = filter (\<lambda>file. chars file \<noteq> chars (SITE_BUILD_DIR cfg)) (clone_listing w)"
  proof (rule filter_cong [OF refl])
    fix entry
    assume listed: "entry \<in> set (clone_listing w)"
    with assms(5) have "ident entry = ident (SITE_BUILD_DIR cfg)
                          \<longrightarrow> chars entry = chars (SITE_BUILD_DIR cfg)"
      by simp
    with same_path [OF listed]
    show "(ident entry \<noteq> ident (SITE_BUILD_DIR cfg)
             \<and> os_path_join (CLONE_DIR_PATH cfg) (chars entry) \<noteq> SITE_BUILD_DIR_PATH cfg)
          = (chars entry \<noteq> chars (SITE_BUILD_DIR cfg))"
      by auto
  qed
  have run: "build_static cfg w =
     move_files cfg (clone_listing w)
       (emit (MadeDirs (SITE_BUILD_DIR_PATH cfg)) (w\<lparr>site_build_dir_exists := True\<rparr>))"
    using assms(1)
    by (simp add: build_static_def os_makedirs_def seq_def and_then_def reading_def emit_def)
  have "fst (build_static cfg w) = Inr ()"
    by (simp add: run move_files_trace)
  moreover have "trace (snd (build_static cfg w)) =
           trace w @ MadeDirs (SITE_BUILD_DIR_PATH cfg)
             # map (\<lambda>file. Moved (os_path_join (CLONE_DIR_PATH cfg) (chars file))
                             (SITE_BUILD_DIR_PATH cfg))
                 (filter (\<lambda>file. chars file \<noteq> chars (SITE_BUILD_DIR cfg)) (clone_listing w))"
    by (simp add: run move_files_trace emit_def moved)
  moreover have "Moved (SITE_BUILD_DIR_PATH cfg) (SITE_BUILD_DIR_PATH cfg)
           \<notin> set (map (\<lambda>file. Moved (os_path_join (CLONE_DIR_PATH cfg) (chars file))
                                  (SITE_BUILD_DIR_PATH cfg))
                      (filter (\<lambda>file. chars file \<noteq> chars (SITE_BUILD_DIR cfg))
                         (clone_listing w)))"
  proof
    assume "Moved (SITE_BUILD_DIR_PATH cfg) (SITE_BUILD_DIR_PATH cfg)
           \<in> set (map (\<lambda>file. Moved (os_path_join (CLONE_DIR_PATH cfg) (chars file))
                                  (SITE_BUILD_DIR_PATH cfg))
                      (filter (\<lambda>file. chars file \<noteq> chars (SITE_BUILD_DIR cfg))
                         (clone_listing w)))"
    then obtain entry where listed: "entry \<in> set (clone_listing w)"
      and other: "chars entry \<noteq> chars (SITE_BUILD_DIR cfg)"
      and path: "os_path_join (CLONE_DIR_PATH cfg) (chars entry) = SITE_BUILD_DIR_PATH cfg"
      by auto
    from same_path [OF listed] path have "chars entry = chars (SITE_BUILD_DIR cfg)"
      by blast
    with other show False by simp
  qed
  ultimately show ?thesis by blast
qed

theorem build_static_moves_all_but_output_dir_witness:
  "\<not> site_build_dir_exists world_with_site_entry
   \<and> clone_listing world_with_site_entry = [PyStr 1 ''a.txt'', PyStr 2 ''b'', PyStr 3 ''_site'']
   \<and> fst (build_static sample_config world_with_site_entry) = Inr ()
   \<and> trace (snd (build_static sample_config world_with_site_entry)) =
       [MadeDirs ''/work/site_repo/_site'',
        Moved ''/work/site_repo/a.txt'' ''/work/site_repo/_site'',
        Moved ''/work/site_repo/b'' ''/work/site_repo/_site'']"
proof -
  have fresh: "\<not> site_build_dir_exists world_with_site_entry"
    by (simp add: world_with_site_entry_def bare_world_def)
  have inside: "SITE_BUILD_DIR_PATH sample_config
                  = os_path_join (CLONE_DIR_PATH sample_config) (chars (SITE_BUILD_DIR sample_config))"
    by (simp add: sample_config_def os_path_join_def)
  have name: "CHR ''/'' \<notin> set (chars (SITE_BUILD_DIR sample_config))"
    by (simp add: sample_config_def)
  have names: "\<forall>file \<in> set (clone_listing world_with_site_entry). CHR ''/'' \<notin> set (chars file)"
    by (simp add: world_with_site_entry_def)
  have objects: "\<forall>file \<in> set (clone_listing world_with_site_entry).
           ident file = ident (SITE_BUILD_DIR sample_config)
             \<longrightarrow> chars file = chars (SITE_BUILD_DIR sample_config)"
    by (simp add: world_with_site_entry_def sample_config_def)
  have listing: "clone_listing world_with_site_entry
                   = [PyStr 1 ''a.txt'', PyStr 2 ''b'', PyStr 3 ''_site'']"
    by (simp add: world_with_site_entry_def)
  from build_static_moves_all_but_output_dir [OF fresh inside name names objects] fresh listing
  show ?thesis
    by (simp add: world_with_site_entry_def sample_defs os_path_join_def)
qed

text \<open>
  C8. When the output directory exists already, \<open>build_static\<close> raises
  \<^verbatim>\<open>FileExistsError\<close> at \<^verbatim>\<open>os.makedirs\<close> and leaves the world as it found it: nothing is
  listed, nothing is moved.
\<close>

theorem build_static_existing_output_dir:
  assumes "site_build_dir_exists w"
  shows "build_static cfg w = (Inl FileExistsError, w)"
  using assms by (simp add: build_static_def os_makedirs_def raise_def seq_def and_then_def)

theorem build_static_existing_output_dir_witness:
  "site_build_dir_exists world_with_output_dir
   \<and> clone_listing world_with_output_dir = [PyStr 1 ''a.txt'', PyStr 2 ''b'', PyStr 3 ''_site'']
   \<and> build_static sample_config world_with_output_dir
       = (Inl FileExistsError, world_with_output_dir)"
proof -
  have pre: "site_build_dir_exists world_with_output_dir"
    by (simp add: world_with_output_dir_def)
  have "clone_listing world_with_output_dir = [PyStr 1 ''a.txt'', PyStr 2 ''b'', PyStr 3 ''_site'']"
    by (simp add: world_with_output_dir_def world_with_site_entry_def)
  with pre build_static_existing_output_dir [OF pre, of sample_config] show ?thesis
    by simp
qed

subsection \<open>The package manifest\<close>

text \<open>
  C2, as claimed: \<open>has_federalist_script\<close> returns false and never raises when the
  manifest cannot be parsed. It does not: the exception of \<^verbatim>\<open>json.load\<close> is not caught,
  so on a manifest that \<^verbatim>\<open>json.load\<close> rejects the function raises.
\<close>

theorem has_federalist_script_unparsable_raises:
  "package_json_file world_with_broken_manifest = Some (Inl JSONDecodeError)
   \<and> has_federalist_script world_with_broken_manifest = Inl JSONDecodeError
   \<and> has_federalist_script world_with_broken_manifest \<noteq> Inr False"
  by (simp add: has_federalist_script_def world_with_broken_manifest_def sample_defs
        is_file_defs)

text \<open>
  C2, amended: \<open>has_federalist_script\<close> returns true if and only if the manifest exists,
  \<^verbatim>\<open>json.load\<close> decodes it to an object, and \<^verbatim>\<open>'federalist'\<close> is in the value of its
  \<^verbatim>\<open>scripts\<close> member (the empty dict when there is none); when \<^verbatim>\<open>scripts\<close> is an object
  the result is whether \<^verbatim>\<open>federalist\<close> is one of its keys. It returns false, without
  raising, when the manifest is missing and when the decoded object has no \<^verbatim>\<open>scripts\<close>
  section. When \<^verbatim>\<open>json.load\<close> cannot parse the manifest, its exception propagates.
\<close>

theorem has_federalist_script_cases:
  assumes "package_json_file w_missing = None"
    and "package_json_file w_unparsed = Some (Inl e)"
    and "package_json_file w_plain = Some (Inr (JObject items))"
    and "map_of items ''scripts'' = None"
    and "package_json_file w_scripted = Some (Inr (JObject items'))"
    and "map_of items' ''scripts'' = Some (JObject scripts)"
  shows "has_federalist_script w_missing = Inr False
       \<and> has_federalist_script w_unparsed = Inl e
       \<and> has_federalist_script w_plain = Inr False
       \<and> has_federalist_script w_scripted = Inr (''federalist'' \<in> set (map fst scripts))
       \<and> (has_federalist_script w = Inr True) =
           (\<exists>members. package_json_file w = Some (Inr (JObject members))
              \<and> py_in ''federalist''
                   (case map_of members ''scripts'' of None \<Rightarrow> JObject [] | Some v \<Rightarrow> v)
                 = Inr True)"
proof -
  have "(has_federalist_script w = Inr True) =
           (\<exists>members. package_json_file w = Some (Inr (JObject members))
              \<and> py_in ''federalist''
                   (case map_of members ''scripts'' of None \<Rightarrow> JObject [] | Some v \<Rightarrow> v)
                 = Inr True)"
  proof (cases "package_json_file w")
    case None
    then show ?thesis by (simp add: has_federalist_script_def is_file_defs)
  next
    case (Some loaded)
    show ?thesis
    proof (cases loaded)
      case (Inl e)
      with Some show ?thesis by (simp add: has_federalist_script_def is_file_defs)
    next
      case (Inr v)
      with Some show ?thesis
        by (cases v) (auto simp: has_federalist_script_def is_file_defs split: option.splits)
    qed
  qed
  with assms show ?thesis
    by (simp add: has_federalist_script_def is_file_defs)
qed

theorem has_federalist_script_cases_witness:
  "has_federalist_script bare_world = Inr False
   \<and> has_federalist_script world_with_broken_manifest = Inl JSONDecodeError
   \<and> has_federalist_script world_with_plain_manifest = Inr False
   \<and> has_federalist_script world_with_federalist_manifest = Inr True"
proof -
  have missing: "package_json_file bare_world = None"
    by (simp add: bare_world_def)
  have unparsed: "package_json_file world_with_broken_manifest = Some (Inl JSONDecodeError)"
    by (simp add: world_with_broken_manifest_def)
  have plain: "package_json_file world_with_plain_manifest
                 = Some (Inr (JObject [(''name'', JString ''site'')]))"
    by (simp add: world_with_plain_manifest_def)
  have no_scripts: "map_of [(''name'', JString ''site'')] ''scripts'' = None"
    by simp
  have scripted: "package_json_file world_with_federalist_manifest
                    = Some (Inr (JObject [(''name'', JString ''site''),
                          (''scripts'', JObject [(''federalist'', JString ''make site'')])]))"
    by (simp add: world_with_federalist_manifest_def)
  have scripts: "map_of [(''name'', JString ''site''),
                         (''scripts'', JObject [(''federalist'', JString ''make site'')])]
                   ''scripts'' = Some (JObject [(''federalist'', JString ''make site'')])"
    by simp
  from has_federalist_script_cases [OF missing unparsed plain no_scripts scripted scripts]
  show ?thesis by simp
qed

subsection \<open>Ruby setup\<close>

text \<open>
  C3. The claim: when \<^verbatim>\<open>.ruby-version\<close> pins the version \<open>v\<close>, \<open>setup_ruby\<close> runs
  \<^verbatim>\<open>rvm install v\<close>. The string handed to \<^verbatim>\<open>ctx.run\<close> is not an f-string, so the
  placeholder stays: with \<^verbatim>\<open>2.6.3\<close> pinned the command that runs is
  \<^verbatim>\<open>rvm install {ruby_version}\<close>.
\<close>

theorem setup_ruby_runs_unformatted_command:
  "strip (readline (''2.6.3'' @ [LF])) = ''2.6.3''
   \<and> fst (setup_ruby world_with_ruby_pin) = Inr ()
   \<and> trace (snd (setup_ruby world_with_ruby_pin)) =
       [Ran \<lparr>entered = [Prefix ''source /usr/local/rvm/scripts/rvm''],
              command = ''rvm install {ruby_version}'', env = []\<rparr> 0,
        Ran \<lparr>entered = [Prefix ''source /usr/local/rvm/scripts/rvm''],
              command = ''ruby -v'', env = []\<rparr> 0]"
  by (simp add: setup_ruby_def world_with_ruby_pin_def sample_defs task_defs is_file_defs
        strip_def isspace_def LF_def CR_def RVM_PATH_def)

subsection \<open>The Jekyll build\<close>

text \<open>
  C4. For every base URL, branch and raw configuration text, \<open>build_jekyll\<close> leaves
  \<^verbatim>\<open>_config.yml\<close> with its former contents followed by a blank line, the line
  \<^verbatim>\<open>baseurl: <base_url>\<close>, the line \<^verbatim>\<open>branch: <branch>\<close> and the raw configuration text,
  in that order, whatever the subprocesses that follow do.
\<close>

theorem build_jekyll_appends_config:
  "jekyll_conf_yml (snd (build_jekyll cfg branch owner repository site_prefix config base_url w)) =
     Some ((case jekyll_conf_yml w of None \<Rightarrow> [] | Some text \<Rightarrow> text)
           @ [LF] @ ''baseurl: '' @ base_url @ [LF] @ ''branch: '' @ branch @ [LF] @ config)"
proof -
  let ?lines = "[[LF] @ ''baseurl: '' @ base_url @ [LF], ''branch: '' @ branch @ [LF], config]"
  let ?rest = "and_then
            (node_context cfg [Prefix (''source '' @ RVM_PATH), Cd (CLONE_DIR_PATH cfg)])
            (\<lambda>stack.
               with_contexts stack
                 (and_then
                    (reading GEMFILE_PATH_is_file
                       (\<lambda>is_file.
                          if is_file
                          then seq (ctx_run ''gem install bundler'' [])
                              (seq (ctx_run ''bundle install'' [])
                                   (ret (''bundle exec '' @ ''jekyll'')))
                          else seq (ctx_run ''gem install jekyll'' [])
                                   (ret ''jekyll'')))
                    (\<lambda>jekyll_cmd.
                       seq (ctx_run (jekyll_cmd @ '' -v'') [])
                           (ctx_run (jekyll_cmd @ '' build --destination ''
                                       @ chars (SITE_BUILD_DIR cfg))
                              (build_env branch owner repository site_prefix base_url)))))"
  have rest: "keeps_conf ?rest"
    by (intro keeps_conf_and_then keeps_conf_node_context keeps_conf_with_contexts
          keeps_conf_reading)
       (simp_all add: keeps_conf_seq keeps_conf_ctx_run keeps_conf_ret)
  obtain w1 where w1: "append_jekyll_conf cfg ?lines w = (Inr (), w1)"
    and conf: "jekyll_conf_yml w1 =
      Some ((case jekyll_conf_yml w of None \<Rightarrow> [] | Some text \<Rightarrow> text)
           @ [LF] @ ''baseurl: '' @ base_url @ [LF] @ ''branch: '' @ branch @ [LF] @ config)"
    by (simp add: append_jekyll_conf_def Let_def emit_def)
  have "build_jekyll cfg branch owner repository site_prefix config base_url w = ?rest w1"
    using w1 by (simp add: build_jekyll_def seq_def and_then_def)
  with rest conf show ?thesis by (simp add: keeps_conf_def)
qed

text \<open>
  The example of the specification: base URL \<^verbatim>\<open>/x\<close>, branch \<^verbatim>\<open>main\<close>, raw configuration
  \<^verbatim>\<open>foo: bar\<close> and a line end, on a configuration file that holds one line.
\<close>

theorem build_jekyll_appends_config_witness:
  "jekyll_conf_yml
     (snd (build_jekyll sample_config ''main'' ''owner'' ''repo'' ''site/owner/repo''
             (''foo: bar'' @ [LF]) ''/x''
             (bare_world\<lparr>jekyll_conf_yml := Some (''title: t'' @ [LF])\<rparr>))) =
     Some (''title: t'' @ [LF] @ [LF] @ ''baseurl: /x'' @ [LF] @ ''branch: main'' @ [LF]
           @ ''foo: bar'' @ [LF])"
  using build_jekyll_appends_config [of sample_config "''main''" "''owner''" "''repo''"
          "''site/owner/repo''" "''foo: bar'' @ [LF]" "''/x''"
          "bare_world\<lparr>jekyll_conf_yml := Some (''title: t'' @ [LF])\<rparr>"]
  by simp

subsection \<open>Non-zero exit codes\<close>

text \<open>
  C5. For every task, run from the command line with the tasks it depends on: when a
  subprocess exits with a non-zero code, the run ends with the \<^verbatim>\<open>UnexpectedExit\<close> that
  carries this code, and that subprocess is the last thing the run did: no subprocess,
  write, download, removal or move follows it.
\<close>

theorem nonzero_exit_aborts_task:
  assumes "execute cfg call w = (r, w')"
    and "trace w = []"
    and "trace w' = pre @ Ran invoked code # post"
    and "code \<noteq> 0"
  shows "r = Inl (UnexpectedExit code) \<and> post = []"
proof -
  from assms(2) have "calm (trace w)" by (simp add: calm_def)
  with disciplined_execute [of cfg call] assms(1)
  have "calm (trace w') \<or> stopped r (trace w')"
    by (auto simp: disciplined_def)
  moreover from assms(3,4) have "\<not> calm (trace w')"
    by (auto simp: calm_def failed_def)
  ultimately have "stopped r (trace w')" by simp
  then obtain before invoked' code' where t: "trace w' = before @ [Ran invoked' code']"
    and b: "calm before" and r: "r = Inl (UnexpectedExit code')"
    by (auto simp: stopped_def)
  from t assms(3) have "before @ [Ran invoked' code'] = pre @ Ran invoked code # post"
    by simp
  from failed_run_is_last [OF this b assms(4)] r show ?thesis by simp
qed

theorem nonzero_exit_aborts_task_witness:
  "trace world_with_failing_npm = []
   \<and> trace (snd (execute sample_config Build_static world_with_failing_npm)) =
       [Ran \<lparr>entered = [Cd ''/work/site_repo'', Prefix ''source /usr/local/nvm/nvm.sh''],
              command = ''node --version'', env = []\<rparr> 0]
       @ Ran \<lparr>entered = [Cd ''/work/site_repo'', Prefix ''source /usr/local/nvm/nvm.sh''],
               command = ''npm --version'', env = []\<rparr> 3 # []
   \<and> fst (execute sample_config Build_static world_with_failing_npm) = Inl (UnexpectedExit 3)"
proof -
  have start: "trace world_with_failing_npm = []"
    by (simp add: world_with_failing_npm_def bare_world_def)
  have run: "trace (snd (execute sample_config Build_static world_with_failing_npm)) =
       [Ran \<lparr>entered = [Cd ''/work/site_repo'', Prefix ''source /usr/local/nvm/nvm.sh''],
              command = ''node --version'', env = []\<rparr> 0]
       @ Ran \<lparr>entered = [Cd ''/work/site_repo'', Prefix ''source /usr/local/nvm/nvm.sh''],
               command = ''npm --version'', env = []\<rparr> 3 # []"
    by (simp add: setup_node_def world_with_failing_npm_def sample_defs task_defs is_file_defs)
  have "execute sample_config Build_static world_with_failing_npm =
          (fst (execute sample_config Build_static world_with_failing_npm),
           snd (execute sample_config Build_static world_with_failing_npm))"
    by simp
  from nonzero_exit_aborts_task [OF this start run]
  have "fst (execute sample_config Build_static world_with_failing_npm) = Inl (UnexpectedExit 3)"
    by simp
  with start run show ?thesis by simp
qed

subsection \<open>The Node context\<close>

text \<open>
  C6. For every list of further contexts, \<open>node_context\<close> puts the sourcing of the
  version manager first and the further contexts last; with a \<^verbatim>\<open>.nvmrc\<close> file the
  activation \<^verbatim>\<open>nvm use\<close> stands right after the sourcing, without one it is left out, and
  that is the only difference between the two stacks.
\<close>

theorem node_context_composition:
  assumes "NVMRC_PATH_is_file w_pinned" and "\<not> NVMRC_PATH_is_file w_default"
  shows "node_context cfg more_contexts w_pinned =
           (Inr (Prefix (''source '' @ NVM_SH_PATH cfg) # Prefix ''nvm use'' # more_contexts),
            w_pinned)
       \<and> node_context cfg more_contexts w_default =
           (Inr (Prefix (''source '' @ NVM_SH_PATH cfg) # more_contexts), w_default)"
  using assms by (simp add: node_context_def reading_def ret_def)

theorem node_context_composition_witness:
  "NVMRC_PATH_is_file world_with_node_pin \<and> \<not> NVMRC_PATH_is_file bare_world
   \<and> node_context sample_config [Cd ''/work/site_repo''] world_with_node_pin =
       (Inr [Prefix ''source /usr/local/nvm/nvm.sh'', Prefix ''nvm use'', Cd ''/work/site_repo''],
        world_with_node_pin)
   \<and> node_context sample_config [Cd ''/work/site_repo''] bare_world =
       (Inr [Prefix ''source /usr/local/nvm/nvm.sh'', Cd ''/work/site_repo''], bare_world)"
proof -
  have pinned: "NVMRC_PATH_is_file world_with_node_pin"
    by (simp add: NVMRC_PATH_is_file_def world_with_node_pin_def)
  have default: "\<not> NVMRC_PATH_is_file bare_world"
    by (simp add: NVMRC_PATH_is_file_def bare_world_def)
  from node_context_composition [OF pinned default, of sample_config "[Cd ''/work/site_repo'']"]
    pinned default
  show ?thesis by (simp add: sample_config_def)
qed

subsection \<open>The environment of the generator\<close>




subsection \<open>Installing Hugo\<close>

text \<open>
  C9, as claimed: when the download of the release asset gets a non-success response,
  \<open>install_hugo\<close> aborts and does not go on to install the package. It does go on: the
  status of the response is never looked at. With a 404 answer the error page is written
  to \<^verbatim>\<open>hugo.deb\<close> and \<^verbatim>\<open>dpkg -i\<close> runs on it; when that subprocess exits with zero,
  the task returns normally.
\<close>

theorem install_hugo_installs_error_page:
  "requests_get world_with_missing_release (dl_url ''0.23'')
     = Inr \<lparr>status_code = 404, content = ''Not Found''\<rparr>
   \<and> fst (install_hugo sample_config ''0.23'' world_with_missing_release) = Inr ()
   \<and> trace (snd (install_hugo sample_config ''0.23'' world_with_missing_release)) =
       [Fetched
          ''https://github.com/gohugoio/hugo/releases/download/v0.23/hugo_0.23_Linux-64bit.deb'',
        Wrote ''/work/hugo.deb'' ''Not Found'',
        Ran \<lparr>entered = [], command = ''dpkg -i /work/hugo.deb'', env = []\<rparr> 0]"
  by (simp add: install_hugo_def http_get_def write_hugo_deb_def dl_url_def hugo_deb_def
        os_path_join_def fold_write_chunks concat_iter_content world_with_missing_release_def
        sample_defs task_defs)

text \<open>
  C9, amended: \<open>install_hugo\<close> does not look at the status of the response. Whenever
  \<^verbatim>\<open>requests.get\<close> returns a response, successful or not, the task writes the body of the
  response to \<^verbatim>\<open>hugo.deb\<close> and runs \<^verbatim>\<open>dpkg -i\<close> on that file; it aborts exactly when
  this subprocess exits with a non-zero code, with that code. Only when \<^verbatim>\<open>requests.get\<close>
  itself raises does the task abort before anything is written or installed.
\<close>

theorem install_hugo_ignores_status:
  assumes "requests_get w (dl_url version) = Inr page"
    and "requests_get w_down (dl_url version) = Inl e"
  shows "trace (snd (install_hugo cfg version w)) =
           trace w @ [Fetched (dl_url version),
                      Wrote (hugo_deb cfg) (content page),
                      Ran \<lparr>entered = active w, command = ''dpkg -i '' @ hugo_deb cfg, env = []\<rparr>
                        (sh w (trace w @ [Fetched (dl_url version),
                                          Wrote (hugo_deb cfg) (content page)])
                           \<lparr>entered = active w, command = ''dpkg -i '' @ hugo_deb cfg,
                            env = []\<rparr>)]
       \<and> fst (install_hugo cfg version w) =
           (if sh w (trace w @ [Fetched (dl_url version), Wrote (hugo_deb cfg) (content page)])
                 \<lparr>entered = active w, command = ''dpkg -i '' @ hugo_deb cfg, env = []\<rparr> = 0
            then Inr ()
            else Inl (UnexpectedExit
                   (sh w (trace w @ [Fetched (dl_url version),
                                     Wrote (hugo_deb cfg) (content page)])
                      \<lparr>entered = active w, command = ''dpkg -i '' @ hugo_deb cfg, env = []\<rparr>)))
       \<and> install_hugo cfg version w_down = (Inl e, emit (Fetched (dl_url version)) w_down)"
  using assms
  by (simp add: install_hugo_def http_get_def write_hugo_deb_def fold_write_chunks
        concat_iter_content task_defs)

theorem install_hugo_ignores_status_witness:
  "status_code \<lparr>status_code = 404, content = ''Not Found''\<rparr> = 404
   \<and> trace (snd (install_hugo sample_config ''0.23'' world_with_missing_release)) =
       [Fetched (dl_url ''0.23''),
        Wrote ''/work/hugo.deb'' ''Not Found'',
        Ran \<lparr>entered = [], command = ''dpkg -i /work/hugo.deb'', env = []\<rparr> 0]
   \<and> fst (install_hugo sample_config ''0.23'' world_with_missing_release) = Inr ()
   \<and> fst (install_hugo sample_config ''0.23'' world_offline) = Inl ConnectionError
   \<and> trace (snd (install_hugo sample_config ''0.23'' world_offline)) = [Fetched (dl_url ''0.23'')]"
proof -
  have page: "requests_get world_with_missing_release (dl_url ''0.23'')
                = Inr \<lparr>status_code = 404, content = ''Not Found''\<rparr>"
    by (simp add: world_with_missing_release_def)
  have down: "requests_get world_offline (dl_url ''0.23'') = Inl ConnectionError"
    by (simp add: world_offline_def)
  from install_hugo_ignores_status [OF page down, of sample_config]
  show ?thesis
    by (simp add: hugo_deb_def os_path_join_def emit_def world_with_missing_release_def
          world_offline_def sample_defs)
qed

subsection \<open>Node setup\<close>

text \<open>
  C10. When the package manifest exists and the subprocesses succeed, \<open>setup_node\<close> runs
  \<^verbatim>\<open>npm install --production\<close> under the prefix \<^verbatim>\<open>nvm use\<close> whether or not \<^verbatim>\<open>.nvmrc\<close>
  exists; the pin file decides only whether \<^verbatim>\<open>nvm install\<close> runs first. \<open>node_context\<close>
  is different: it has the prefix \<^verbatim>\<open>nvm use\<close> only when the pin file exists.
\<close>

theorem setup_node_always_uses_nvm_use:
  assumes "\<And>history invoked. sh w history invoked = 0"
    and "PACKAGE_JSON_PATH_is_file w"
  shows "trace (snd (setup_node cfg w)) =
           trace w
           @ (if NVMRC_PATH_is_file w
              then [Ran \<lparr>entered = active w @ [Cd (CLONE_DIR_PATH cfg),
                                               Prefix (''source '' @ NVM_SH_PATH cfg)],
                         command = ''nvm install'', env = []\<rparr> 0]
              else [])
           @ [Ran \<lparr>entered = active w @ [Cd (CLONE_DIR_PATH cfg),
                                          Prefix (''source '' @ NVM_SH_PATH cfg)],
                    command = ''node --version'', env = []\<rparr> 0,
              Ran \<lparr>entered = active w @ [Cd (CLONE_DIR_PATH cfg),
                                          Prefix (''source '' @ NVM_SH_PATH cfg)],
                    command = ''npm --version'', env = []\<rparr> 0,
              Ran \<lparr>entered = active w @ [Cd (CLONE_DIR_PATH cfg),
                                          Prefix (''source '' @ NVM_SH_PATH cfg),
                                          Prefix ''nvm use''],
                    command = ''npm install --production'', env = []\<rparr> 0]
       \<and> fst (node_context cfg [] w) =
           Inr (if NVMRC_PATH_is_file w
                then [Prefix (''source '' @ NVM_SH_PATH cfg), Prefix ''nvm use'']
                else [Prefix (''source '' @ NVM_SH_PATH cfg)])"
  using assms
  by (simp add: setup_node_def node_context_def task_defs is_file_defs)

theorem setup_node_always_uses_nvm_use_witness:
  "PACKAGE_JSON_PATH_is_file world_with_plain_manifest
   \<and> \<not> NVMRC_PATH_is_file world_with_plain_manifest
   \<and> trace (snd (setup_node sample_config world_with_plain_manifest)) =
       [Ran \<lparr>entered = [Cd ''/work/site_repo'', Prefix ''source /usr/local/nvm/nvm.sh''],
              command = ''node --version'', env = []\<rparr> 0,
        Ran \<lparr>entered = [Cd ''/work/site_repo'', Prefix ''source /usr/local/nvm/nvm.sh''],
              command = ''npm --version'', env = []\<rparr> 0,
        Ran \<lparr>entered = [Cd ''/work/site_repo'', Prefix ''source /usr/local/nvm/nvm.sh'',
                         Prefix ''nvm use''],
              command = ''npm install --production'', env = []\<rparr> 0]
   \<and> fst (node_context sample_config [] world_with_plain_manifest) =
       Inr [Prefix ''source /usr/local/nvm/nvm.sh'']"
proof -
  have quiet: "\<And>history invoked. sh world_with_plain_manifest history invoked = 0"
    by (simp add: world_with_plain_manifest_def bare_world_def)
  have manifest: "PACKAGE_JSON_PATH_is_file world_with_plain_manifest"
    by (simp add: PACKAGE_JSON_PATH_is_file_def world_with_plain_manifest_def)
  from setup_node_always_uses_nvm_use [OF quiet manifest, of sample_config] manifest
  show ?thesis
    by (simp add: NVMRC_PATH_is_file_def world_with_plain_manifest_def sample_defs)
qed

end
